theory Spec2Isabelle
  imports Main "HOL-Library.Sublist"
begin

section \<open>Python values and the operations the handler uses on them\<close>

text \<open>
  The event handed to \<^verbatim>\<open>process_request\<close> is an already deserialised JSON document:
  \<^verbatim>\<open>None\<close>, booleans, integers, strings, lists and dictionaries with string keys.
  A dictionary is an association list read with \<open>map_of\<close>. Floating point numbers are
  left out: for every operation used below (subscripting, \<^verbatim>\<open>in\<close>, truth value) they
  behave as the integers do.
\<close>

datatype json =
    JNull
  | JBool bool
  | JInt int
  | JStr string
  | JList "json list"
  | JDict "(string \<times> json) list"

text \<open>
  The exceptions of the source, all of them instances of \<^verbatim>\<open>Exception\<close>:
  \<^verbatim>\<open>KeyError\<close> (a missing dictionary key), \<^verbatim>\<open>TypeError\<close> (subscripting or
  iterating a value that supports neither), \<^verbatim>\<open>ValueError\<close> (raised by the origin
  check and by \<^verbatim>\<open>int\<close>), and \<open>HandlerError\<close> for any other exception a concrete
  handler raises.
\<close>

datatype pyexc =
    KeyError string
  | TypeError
  | ValueError string
  | HandlerError string

type_synonym 'a result = "pyexc + 'a"

definition bindE :: "'a result \<Rightarrow> ('a \<Rightarrow> 'b result) \<Rightarrow> 'b result" where
  "bindE m f = (case m of Inl e \<Rightarrow> Inl e | Inr v \<Rightarrow> f v)"

text \<open>\<^verbatim>\<open>obj[k]\<close> for a string \<open>k\<close>: only a dictionary can be subscripted with a string.\<close>

fun py_getitem :: "json \<Rightarrow> string \<Rightarrow> json result" where
  "py_getitem (JDict kvs) k =
     (case map_of kvs k of None \<Rightarrow> Inl (KeyError k) | Some v \<Rightarrow> Inr v)"
| "py_getitem JNull k = Inl TypeError"
| "py_getitem (JBool b) k = Inl TypeError"
| "py_getitem (JInt i) k = Inl TypeError"
| "py_getitem (JStr s) k = Inl TypeError"
| "py_getitem (JList xs) k = Inl TypeError"

text \<open>
  \<^verbatim>\<open>k in obj\<close> for a string \<open>k\<close>: key membership for a dictionary, substring test for
  a string, element membership for a list, \<^verbatim>\<open>TypeError\<close> for a value that is not
  iterable.
\<close>

fun py_contains :: "string \<Rightarrow> json \<Rightarrow> bool result" where
  "py_contains k (JDict kvs) = Inr (k \<in> set (map fst kvs))"
| "py_contains k (JStr s) = Inr (sublist k s)"
| "py_contains k (JList xs) = Inr (JStr k \<in> set xs)"
| "py_contains k JNull = Inl TypeError"
| "py_contains k (JBool b) = Inl TypeError"
| "py_contains k (JInt i) = Inl TypeError"

text \<open>The truth value of an object in a condition.\<close>

fun py_truthy :: "json \<Rightarrow> bool" where
  "py_truthy JNull = False"
| "py_truthy (JBool b) = b"
| "py_truthy (JInt i) = (i \<noteq> 0)"
| "py_truthy (JStr s) = (s \<noteq> [])"
| "py_truthy (JList xs) = (xs \<noteq> [])"
| "py_truthy (JDict kvs) = (kvs \<noteq> [])"


section \<open>Accessor helpers of \<^verbatim>\<open>AlexaBaseHandler\<close>\<close>

text \<open>
  \<^verbatim>\<open>_get_intent\<close>, \<^verbatim>\<open>_get_intent_name\<close>, \<^verbatim>\<open>_slot_exists\<close> and
  \<^verbatim>\<open>_get_slot_value\<close> (the leading underscore is dropped: an Isabelle name starts
  with a letter). Python's \<^verbatim>\<open>None\<close> is \<open>JNull\<close>.
\<close>

definition get_intent :: "json \<Rightarrow> json result" where
  "get_intent intent_request =
     bindE (py_contains ''intent'' intent_request) (\<lambda>present.
       if present then py_getitem intent_request ''intent'' else Inr JNull)"

definition get_intent_name :: "json \<Rightarrow> json result" where
  "get_intent_name intent_request =
     bindE (get_intent intent_request) (\<lambda>intent.
       if intent \<noteq> JNull then
         bindE (py_contains ''name'' intent) (\<lambda>present.
           if present then py_getitem intent ''name'' else Inr JNull)
       else Inr JNull)"

definition slot_exists :: "string \<Rightarrow> json \<Rightarrow> bool result" where
  "slot_exists slot_name intent_request =
     bindE (get_intent intent_request) (\<lambda>intent.
       if intent \<noteq> JNull then
         bindE (py_getitem intent ''slots'') (\<lambda>slots. py_contains slot_name slots)
       else Inr False)"

text \<open>The body of the \<^verbatim>\<open>try\<close> block of \<^verbatim>\<open>_get_slot_value\<close>.\<close>

definition get_slot_value_try :: "string \<Rightarrow> json \<Rightarrow> json result" where
  "get_slot_value_try slot_name intent_request =
     bindE (slot_exists slot_name intent_request) (\<lambda>ex.
       if ex then
         bindE (get_intent intent_request) (\<lambda>intent.
         bindE (py_getitem intent ''slots'') (\<lambda>slots.
         bindE (py_getitem slots slot_name) (\<lambda>slot.
           py_getitem slot ''value'')))
       else Inr JNull)"

text \<open>
  \<^verbatim>\<open>_get_slot_value\<close>: \<^verbatim>\<open>value\<close> starts as \<^verbatim>\<open>None\<close>; an exception in the
  \<^verbatim>\<open>try\<close> block is logged and \<^verbatim>\<open>value\<close> keeps \<^verbatim>\<open>None\<close>. The result is the
  outcome of the call (a returned value, or an exception that escapes) together with
  the lines written to the logger.
\<close>

definition get_slot_value :: "string \<Rightarrow> json \<Rightarrow> json result \<times> string list" where
  "get_slot_value slot_name intent_request =
     (case get_slot_value_try slot_name intent_request of
        Inl exc \<Rightarrow> (Inr JNull, [''Error getting slot value for slot_name='' @ slot_name])
      | Inr v \<Rightarrow> (Inr v, []))"

text \<open>
  The specification's reading of a slot lookup: the \<^verbatim>\<open>value\<close> field found by
  walking \<^verbatim>\<open>request.intent.slots[slot_name].value\<close> through dictionaries, absent when
  any step of the walk is missing or is not a dictionary.
\<close>

definition spec_slot_value :: "string \<Rightarrow> json \<Rightarrow> json option" where
  "spec_slot_value slot_name request =
     (case request of
        JDict r \<Rightarrow>
          (case map_of r ''intent'' of
             Some (JDict i) \<Rightarrow>
               (case map_of i ''slots'' of
                  Some (JDict sl) \<Rightarrow>
                    (case map_of sl slot_name of
                       Some (JDict s) \<Rightarrow> map_of s ''value''
                     | _ \<Rightarrow> None)
                | _ \<Rightarrow> None)
           | _ \<Rightarrow> None)
      | _ \<Rightarrow> None)"

definition no_slots_request :: json where
  "no_slots_request =
     JDict [(''type'', JStr ''IntentRequest''),
            (''intent'', JDict [(''name'', JStr ''MyCustomIntent'')])]"


section \<open>The dispatcher \<^verbatim>\<open>process_request\<close>\<close>

text \<open>
  The abstract methods of \<^verbatim>\<open>AlexaBaseHandler\<close> are supplied by a concrete subclass.
  A handler is a method of the object: it reads and updates the object's state \<open>'s\<close>
  and either returns a value or raises. Handlers are taken not to modify the event they
  are given. The context \<open>'c\<close> is opaque.
\<close>

datatype hname =
    OnLaunch
  | OnSessionStarted
  | OnIntent
  | OnHelpIntent
  | OnStopIntent
  | OnCancelIntent
  | OnNoIntent
  | OnYesIntent
  | OnRepeatIntent
  | OnStartOverIntent
  | OnSessionEnded

type_synonym 's handler = "json \<Rightarrow> json \<Rightarrow> 's \<Rightarrow> json result \<times> 's"

record ('s, 'c) handlers =
  on_launch :: "'s handler"
  on_session_started :: "'s handler"
  on_intent :: "'s handler"
  on_help_intent :: "'s handler"
  on_stop_intent :: "'s handler"
  on_cancel_intent :: "'s handler"
  on_no_intent :: "'s handler"
  on_yes_intent :: "'s handler"
  on_repeat_intent :: "'s handler"
  on_start_over_intent :: "'s handler"
  on_session_ended :: "'s handler"
  on_processing_error :: "json \<Rightarrow> 'c \<Rightarrow> pyexc \<Rightarrow> 's \<Rightarrow> json result \<times> 's"

fun handler_method :: "('s, 'c) handlers \<Rightarrow> hname \<Rightarrow> 's handler" where
  "handler_method h OnLaunch = on_launch h"
| "handler_method h OnSessionStarted = on_session_started h"
| "handler_method h OnIntent = on_intent h"
| "handler_method h OnHelpIntent = on_help_intent h"
| "handler_method h OnStopIntent = on_stop_intent h"
| "handler_method h OnCancelIntent = on_cancel_intent h"
| "handler_method h OnNoIntent = on_no_intent h"
| "handler_method h OnYesIntent = on_yes_intent h"
| "handler_method h OnRepeatIntent = on_repeat_intent h"
| "handler_method h OnStartOverIntent = on_start_over_intent h"
| "handler_method h OnSessionEnded = on_session_ended h"

text \<open>
  Every call of a handler is recorded, with its arguments, in a trace; the trace is how
  "invokes", "exactly once" and "before" are stated.
\<close>

datatype 'c call =
    Call hname json json
  | CallProcessingError json 'c pyexc

type_synonym ('s, 'c) exec = "'c call list \<times> 's"

definition invoke ::
  "('s, 'c) handlers \<Rightarrow> hname \<Rightarrow> json \<Rightarrow> json \<Rightarrow> ('s, 'c) exec \<Rightarrow> json result \<times> ('s, 'c) exec" where
  "invoke h n a b st =
     (case st of (tr, s) \<Rightarrow>
        (case handler_method h n a b s of (r, s') \<Rightarrow> (r, tr @ [Call n a b], s')))"

text \<open>\<^verbatim>\<open>self.on_xxx(event['request'], event['session'])\<close>: the arguments are read first.\<close>

definition call_handler ::
  "('s, 'c) handlers \<Rightarrow> hname \<Rightarrow> json \<Rightarrow> ('s, 'c) exec \<Rightarrow> json result \<times> ('s, 'c) exec" where
  "call_handler h n event st =
     (case py_getitem event ''request'' of
        Inl e \<Rightarrow> (Inl e, st)
      | Inr req \<Rightarrow>
          (case py_getitem event ''session'' of
             Inl e \<Rightarrow> (Inl e, st)
           | Inr sess \<Rightarrow> invoke h n req sess st))"

text \<open>The event fields the dispatcher reads.\<close>

definition event_application_id :: "json \<Rightarrow> json result" where
  "event_application_id event =
     bindE (py_getitem event ''session'') (\<lambda>s.
     bindE (py_getitem s ''application'') (\<lambda>a. py_getitem a ''applicationId''))"

definition event_session_new :: "json \<Rightarrow> json result" where
  "event_session_new event =
     bindE (py_getitem event ''session'') (\<lambda>s. py_getitem s ''new'')"

definition event_request_id :: "json \<Rightarrow> json result" where
  "event_request_id event =
     bindE (py_getitem event ''request'') (\<lambda>r. py_getitem r ''requestId'')"

definition event_request_type :: "json \<Rightarrow> json result" where
  "event_request_type event =
     bindE (py_getitem event ''request'') (\<lambda>r. py_getitem r ''type'')"

text \<open>
  Lines 148-149. \<^verbatim>\<open>self.app_id\<close> is \<^verbatim>\<open>None\<close> or a string; in the condition
  \<^verbatim>\<open>self.app_id and ...\<close> both \<^verbatim>\<open>None\<close> and the empty string are false, and then
  the event is not read at all.
\<close>

fun app_id_set :: "string option \<Rightarrow> bool" where
  "app_id_set None = False"
| "app_id_set (Some a) = (a \<noteq> [])"

definition origin_check :: "string option \<Rightarrow> json \<Rightarrow> unit result" where
  "origin_check app_id event =
     (if app_id_set app_id then
        (case event_application_id event of
           Inl e \<Rightarrow> Inl e
         | Inr v \<Rightarrow>
             if v \<noteq> JStr (the app_id) then Inl (ValueError ''Invalid Application ID'')
             else Inr ())
      else Inr ())"

text \<open>Lines 152-153: the session-started notification.\<close>

definition session_step ::
  "('s, 'c) handlers \<Rightarrow> json \<Rightarrow> ('s, 'c) exec \<Rightarrow> json result \<times> ('s, 'c) exec" where
  "session_step h event st =
     (case event_session_new event of
        Inl e \<Rightarrow> (Inl e, st)
      | Inr new \<Rightarrow>
          if py_truthy new then
            (case event_request_id event of
               Inl e \<Rightarrow> (Inl e, st)
             | Inr rid \<Rightarrow>
                 (case py_getitem event ''session'' of
                    Inl e \<Rightarrow> (Inl e, st)
                  | Inr sess \<Rightarrow>
                      invoke h OnSessionStarted (JDict [(''requestId'', rid)]) sess st))
          else (Inr JNull, st))"

text \<open>Lines 160-175: the chain of comparisons on the intent name.\<close>

definition intent_branch ::
  "('s, 'c) handlers \<Rightarrow> json \<Rightarrow> json \<Rightarrow> ('s, 'c) exec \<Rightarrow> json result \<times> ('s, 'c) exec" where
  "intent_branch h intent_name event st =
     (if intent_name = JStr ''AMAZON.HelpIntent'' then call_handler h OnHelpIntent event st
      else if intent_name = JStr ''AMAZON.StopIntent'' then call_handler h OnStopIntent event st
      else if intent_name = JStr ''AMAZON.CancelIntent'' then call_handler h OnCancelIntent event st
      else if intent_name = JStr ''AMAZON.NoIntent'' then call_handler h OnNoIntent event st
      else if intent_name = JStr ''AMAZON.RepeatIntent'' then call_handler h OnRepeatIntent event st
      else if intent_name = JStr ''AMAZON.StartOverIntent''
        then call_handler h OnStartOverIntent event st
      else if intent_name = JStr ''AMAZON.YesIntent'' then call_handler h OnYesIntent event st
      else call_handler h OnIntent event st)"

text \<open>Lines 156-177; \<^verbatim>\<open>response\<close> is \<^verbatim>\<open>None\<close> when no branch is taken.\<close>

definition dispatch ::
  "('s, 'c) handlers \<Rightarrow> json \<Rightarrow> ('s, 'c) exec \<Rightarrow> json result \<times> ('s, 'c) exec" where
  "dispatch h event st =
     (case event_request_type event of
        Inl e \<Rightarrow> (Inl e, st)
      | Inr t \<Rightarrow>
          if t = JStr ''LaunchRequest'' then call_handler h OnLaunch event st
          else if t = JStr ''IntentRequest'' then
            (case bindE (py_getitem event ''request'') get_intent_name of
               Inl e \<Rightarrow> (Inl e, st)
             | Inr intent_name \<Rightarrow> intent_branch h intent_name event st)
          else if t = JStr ''SessionEndedRequest'' then call_handler h OnSessionEnded event st
          else (Inr JNull, st))"

text \<open>The body of the \<^verbatim>\<open>try\<close> block, lines 148-177.\<close>

definition try_block ::
  "('s, 'c) handlers \<Rightarrow> string option \<Rightarrow> json \<Rightarrow> ('s, 'c) exec \<Rightarrow> json result \<times> ('s, 'c) exec" where
  "try_block h app_id event st =
     (case origin_check app_id event of
        Inl e \<Rightarrow> (Inl e, st)
      | Inr u \<Rightarrow>
          (case session_step h event st of
             (Inl e, st1) \<Rightarrow> (Inl e, st1)
           | (Inr v, st1) \<Rightarrow> dispatch h event st1))"

text \<open>
  \<^verbatim>\<open>process_request\<close>: an exception of the \<^verbatim>\<open>try\<close> block is handed to
  \<^verbatim>\<open>on_processing_error\<close>, whose outcome is the outcome of the call. The result is
  the outcome, the trace of handler calls and the final state of the handler object.
\<close>

definition process_request ::
  "('s, 'c) handlers \<Rightarrow> string option \<Rightarrow> json \<Rightarrow> 'c \<Rightarrow> 's \<Rightarrow> json result \<times> 'c call list \<times> 's" where
  "process_request h app_id event context s =
     (case try_block h app_id event ([], s) of
        (Inr response, tr, s1) \<Rightarrow> (Inr response, tr, s1)
      | (Inl exc, tr, s1) \<Rightarrow>
          (case on_processing_error h event context exc s1 of
             (r, s2) \<Rightarrow> (r, tr @ [CallProcessingError event context exc], s2)))"

definition outcome :: "json result \<times> 'c call list \<times> 's \<Rightarrow> json result" where
  "outcome x = fst x"

definition calls :: "json result \<times> 'c call list \<times> 's \<Rightarrow> 'c call list" where
  "calls x = fst (snd x)"

text \<open>
  The request-type handlers are all handlers but \<^verbatim>\<open>on_session_started\<close> and the
  error hook.
\<close>

fun is_request_call :: "'c call \<Rightarrow> bool" where
  "is_request_call (Call n a b) = (n \<noteq> OnSessionStarted)"
| "is_request_call (CallProcessingError e c x) = False"

fun is_error_call :: "'c call \<Rightarrow> bool" where
  "is_error_call (Call n a b) = False"
| "is_error_call (CallProcessingError e c x) = True"

fun is_session_started_call :: "'c call \<Rightarrow> bool" where
  "is_session_started_call (Call n a b) = (n = OnSessionStarted)"
| "is_session_started_call (CallProcessingError e c x) = False"

text \<open>
  The specification's routing table for intent names: the seven reserved names and
  their dedicated handlers; every other name goes to the generic handler.
\<close>

definition reserved_intents :: "(string \<times> hname) list" where
  "reserved_intents =
     [(''AMAZON.HelpIntent'', OnHelpIntent),
      (''AMAZON.StopIntent'', OnStopIntent),
      (''AMAZON.CancelIntent'', OnCancelIntent),
      (''AMAZON.NoIntent'', OnNoIntent),
      (''AMAZON.RepeatIntent'', OnRepeatIntent),
      (''AMAZON.StartOverIntent'', OnStartOverIntent),
      (''AMAZON.YesIntent'', OnYesIntent)]"

fun spec_route :: "json \<Rightarrow> hname" where
  "spec_route (JStr name) =
     (case map_of reserved_intents name of Some n \<Rightarrow> n | None \<Rightarrow> OnIntent)"
| "spec_route other = OnIntent"

text \<open>A hook whose returned value is replaced by \<open>v\<close>; what it raises and its effect
  on the state are kept.\<close>

definition returning :: "json \<Rightarrow> 's handler \<Rightarrow> 's handler" where
  "returning v f = (\<lambda>a b s. case f a b s of (Inl e, s') \<Rightarrow> (Inl e, s') | (Inr w, s') \<Rightarrow> (Inr v, s'))"

text \<open>Concrete handlers and events for the examples.\<close>

definition reply :: "string \<Rightarrow> unit handler" where
  "reply txt = (\<lambda>a b s. (Inr (JStr txt), s))"

definition sample_handlers :: "(unit, unit) handlers" where
  "sample_handlers =
     \<lparr> on_launch = reply ''launch'',
       on_session_started = reply ''started'',
       on_intent = reply ''intent'',
       on_help_intent = reply ''help'',
       on_stop_intent = reply ''stop'',
       on_cancel_intent = reply ''cancel'',
       on_no_intent = reply ''no'',
       on_yes_intent = reply ''yes'',
       on_repeat_intent = reply ''repeat'',
       on_start_over_intent = reply ''start over'',
       on_session_ended = reply ''ended'',
       on_processing_error = (\<lambda>e c x s. (Inr (JStr ''error''), s)) \<rparr>"

definition failing :: "string \<Rightarrow> unit handler" where
  "failing msg = (\<lambda>a b s. (Inl (HandlerError msg), s))"

definition sample_session :: "bool \<Rightarrow> json" where
  "sample_session new =
     JDict [(''new'', JBool new),
            (''application'', JDict [(''applicationId'', JStr ''A'')])]"

definition sample_event :: "bool \<Rightarrow> json \<Rightarrow> json" where
  "sample_event new request =
     JDict [(''session'', sample_session new), (''request'', request)]"

definition launch_request :: json where
  "launch_request = JDict [(''type'', JStr ''LaunchRequest''), (''requestId'', JStr ''r1'')]"

definition intent_request :: "string \<Rightarrow> json" where
  "intent_request name =
     JDict [(''type'', JStr ''IntentRequest''), (''requestId'', JStr ''r1''),
            (''intent'', JDict [(''name'', JStr name)])]"

definition other_request :: json where
  "other_request = JDict [(''type'', JStr ''Ping''), (''requestId'', JStr ''r1'')]"


definition bare_intent_request :: json where
  "bare_intent_request = JDict [(''type'', JStr ''IntentRequest''), (''requestId'', JStr ''r1'')]"

definition nameless_intent_request :: json where
  "nameless_intent_request =
     JDict [(''type'', JStr ''IntentRequest''), (''requestId'', JStr ''r1''),
            (''intent'', JDict [(''slots'', JDict [])])]"

definition started_call :: "unit call" where
  "started_call = Call OnSessionStarted (JDict [(''requestId'', JStr ''r1'')]) (sample_session True)"

(*DEFS-END*)

section \<open>Properties of the accessor helpers\<close>

lemma bindE_simps:
  "bindE (Inl e) f = Inl e"
  "bindE (Inr v) f = f v"
  by (simp_all add: bindE_def)

lemma py_contains_dict: "py_contains k (JDict kvs) = Inr (map_of kvs k \<noteq> None)"
  by (simp add: map_of_eq_None_iff)

lemma get_intent_dict:
  "get_intent (JDict r) = (case map_of r ''intent'' of None \<Rightarrow> Inr JNull | Some v \<Rightarrow> Inr v)"
  unfolding get_intent_def py_contains_dict
  by (simp add: bindE_simps split: option.splits)

lemmas slot_defs = get_slot_value_def get_slot_value_try_def slot_exists_def spec_slot_value_def

text \<open>
  Claim C5. For every slot name and every request object, \<^verbatim>\<open>_get_slot_value\<close> returns
  and never raises. What it returns is the \<^verbatim>\<open>value\<close> field of the slot when the walk
  \<^verbatim>\<open>request.intent.slots[slot_name].value\<close> exists (\<open>spec_slot_value\<close> is \<open>Some v\<close>),
  and \<^verbatim>\<open>None\<close> in every other case: the slot name is not a key of \<^verbatim>\<open>intent.slots\<close>,
  the intent is absent, or the request is malformed at any step (a request, intent,
  slots mapping or slot that is not a dictionary, a missing \<^verbatim>\<open>slots\<close> or \<^verbatim>\<open>value\<close>
  key).
\<close>

theorem get_slot_value_absent_or_value:
  "fst (get_slot_value slot_name request) =
     Inr (case spec_slot_value slot_name request of None \<Rightarrow> JNull | Some v \<Rightarrow> v)"
proof (cases request)
  case (JDict r)
  show ?thesis
  proof (cases "map_of r ''intent''")
    case None
    with JDict show ?thesis
      by (simp add: slot_defs get_intent_dict bindE_simps)
  next
    case (Some intent)
    show ?thesis
    proof (cases intent)
      case (JDict i)
      show ?thesis
      proof (cases "map_of i ''slots''")
        case None
        with \<open>request = JDict r\<close> \<open>map_of r ''intent'' = Some intent\<close> JDict show ?thesis
          by (simp add: slot_defs get_intent_dict bindE_simps)
      next
        case (Some slots)
        with \<open>request = JDict r\<close> \<open>map_of r ''intent'' = Some intent\<close> JDict show ?thesis
          by (cases slots)
            (auto simp: slot_defs get_intent_dict bindE_simps py_contains_dict
              simp del: py_contains.simps(1) split: option.splits json.splits sum.splits)
      qed
    qed (use \<open>request = JDict r\<close> Some in \<open>auto simp: slot_defs get_intent_dict bindE_simps\<close>)
  qed
qed (auto simp: slot_defs get_intent_def bindE_simps)

text \<open>
  Claim C6. The claim says that \<^verbatim>\<open>_slot_exists\<close> returns false, without failing, for
  a request whose intent has no \<^verbatim>\<open>slots\<close> mapping. The code guards the absent intent
  only: for the intent request of a custom intent that carries a name and no
  \<^verbatim>\<open>slots\<close> key, reading \<^verbatim>\<open>intent['slots']\<close> raises \<^verbatim>\<open>KeyError\<close>.
\<close>

theorem slot_exists_raises_without_slots:
  "slot_exists ''Color'' no_slots_request = Inl (KeyError ''slots'')"
  by (simp add: slot_exists_def get_intent_def no_slots_request_def bindE_simps)


section \<open>Properties of the dispatcher\<close>

lemmas eval_defs =
  process_request_def try_block_def origin_check_def session_step_def dispatch_def
  call_handler_def invoke_def event_application_id_def event_session_new_def
  event_request_id_def event_request_type_def get_intent_name_def get_intent_def bindE_def
  sample_handlers_def sample_event_def sample_session_def launch_request_def
  intent_request_def other_request_def bare_intent_request_def nameless_intent_request_def
  started_call_def reply_def failing_def calls_def

lemma intent_branch_route:
  "intent_branch h nm event st = call_handler h (spec_route nm) event st"
proof (cases nm)
  case (JStr x)
  then show ?thesis
    by (simp add: intent_branch_def reserved_intents_def)
qed (simp_all add: intent_branch_def)

lemma spec_route_request: "spec_route nm \<noteq> OnSessionStarted"
proof (cases nm)
  case (JStr x)
  then show ?thesis by (simp add: reserved_intents_def)
qed simp_all

lemma invoke_eq:
  "invoke h n a b (tr, s) =
     (fst (handler_method h n a b s), tr @ [Call n a b], snd (handler_method h n a b s))"
  by (simp add: invoke_def split: prod.splits)

lemma call_handler_eq:
  assumes "py_getitem event ''request'' = Inr req" and "py_getitem event ''session'' = Inr sess"
  shows "call_handler h n event (tr, s) =
     (fst (handler_method h n req sess s), tr @ [Call n req sess],
      snd (handler_method h n req sess s))"
  using assms by (simp add: call_handler_def invoke_eq)

lemma call_handler_trace:
  assumes "call_handler h n event (tr, s) = (r, tr', s')"
  shows "tr' = tr \<or> (\<exists>a b. tr' = tr @ [Call n a b])"
  using assms by (auto simp: call_handler_def invoke_eq split: sum.splits)

lemma dispatch_trace:
  assumes "dispatch h event (tr, s) = (r, tr', s')"
  shows "tr' = tr \<or> (\<exists>n a b. n \<noteq> OnSessionStarted \<and> tr' = tr @ [Call n a b])"
proof (cases "event_request_type event")
  case (Inl e)
  with assms show ?thesis by (simp add: dispatch_def)
next
  case (Inr t)
  consider (l) "t = JStr ''LaunchRequest''" | (i) "t = JStr ''IntentRequest''"
    | (e) "t = JStr ''SessionEndedRequest''"
    | (o) "t \<noteq> JStr ''LaunchRequest''" "t \<noteq> JStr ''IntentRequest''" "t \<noteq> JStr ''SessionEndedRequest''"
    by blast
  then show ?thesis
  proof cases
    case l
    with Inr assms have "call_handler h OnLaunch event (tr, s) = (r, tr', s')"
      by (simp add: dispatch_def)
    from call_handler_trace[OF this] show ?thesis by auto
  next
    case i
    show ?thesis
    proof (cases "bindE (py_getitem event ''request'') get_intent_name")
      case (Inl e)
      with i Inr assms show ?thesis by (simp add: dispatch_def)
    next
      case (Inr nm)
      with i \<open>event_request_type event = Inr t\<close> assms
      have "call_handler h (spec_route nm) event (tr, s) = (r, tr', s')"
        by (simp add: dispatch_def intent_branch_route)
      from call_handler_trace[OF this] spec_route_request[of nm] show ?thesis by auto
    qed
  next
    case e
    with Inr assms have "call_handler h OnSessionEnded event (tr, s) = (r, tr', s')"
      by (simp add: dispatch_def)
    from call_handler_trace[OF this] show ?thesis by auto
  next
    case o
    with Inr assms show ?thesis by (simp add: dispatch_def)
  qed
qed

lemma session_step_trace:
  assumes "session_step h event (tr, s) = (r, tr', s')"
  shows "tr' = tr \<or> (\<exists>a b. tr' = tr @ [Call OnSessionStarted a b])"
  using assms
  by (auto simp: session_step_def invoke_eq split: sum.splits if_splits)

lemma try_block_no_error_call:
  assumes "try_block h app_id event ([], s) = (r, tr, s')"
  shows "filter is_error_call tr = []"
proof (cases "origin_check app_id event")
  case (Inl e)
  with assms show ?thesis by (simp add: try_block_def)
next
  case (Inr u)
  obtain r1 tr1 s1 where ss: "session_step h event ([], s) = (r1, tr1, s1)"
    by (metis prod_cases3)
  from session_step_trace[OF ss] have t1: "filter is_error_call tr1 = []" by auto
  show ?thesis
  proof (cases r1)
    case (Inl e)
    with Inr ss assms t1 show ?thesis by (simp add: try_block_def)
  next
    case (Inr v)
    with \<open>origin_check app_id event = Inr u\<close> ss assms
    have "dispatch h event (tr1, s1) = (r, tr, s')" by (simp add: try_block_def)
    from dispatch_trace[OF this] t1 show ?thesis by auto
  qed
qed

text \<open>
  Claim C4. Whatever the \<^verbatim>\<open>try\<close> block raises (in the origin check, in the
  session-started hook or in the dispatch to a request-type handler), with the trace
  \<open>tr\<close> of calls made up to then: \<^verbatim>\<open>process_request\<close> calls
  \<^verbatim>\<open>on_processing_error\<close> once, with the original event, the original context and that
  exception, and the outcome of \<^verbatim>\<open>process_request\<close> is the outcome of that call. The
  exception of the \<^verbatim>\<open>try\<close> block does not reach the caller; what the error hook
  returns is the final result.
\<close>

theorem failure_goes_to_error_hook:
  assumes "try_block h app_id event ([], s) = (Inl exc, tr, s1)"
  shows "process_request h app_id event ctx s =
           (fst (on_processing_error h event ctx exc s1),
            tr @ [CallProcessingError event ctx exc],
            snd (on_processing_error h event ctx exc s1))
         \<and> filter is_error_call (calls (process_request h app_id event ctx s)) =
             [CallProcessingError event ctx exc]"
proof -
  have eq: "process_request h app_id event ctx s =
           (fst (on_processing_error h event ctx exc s1),
            tr @ [CallProcessingError event ctx exc],
            snd (on_processing_error h event ctx exc s1))"
    using assms by (simp add: process_request_def split: prod.splits)
  from try_block_no_error_call[OF assms] eq show ?thesis by (simp add: calls_def)
qed

theorem failure_goes_to_error_hook_witness:
  "try_block (sample_handlers\<lparr>on_launch := failing ''boom''\<rparr>) None
       (sample_event False launch_request) ([], ()) =
     (Inl (HandlerError ''boom''), [Call OnLaunch launch_request (sample_session False)], ())
   \<and> process_request (sample_handlers\<lparr>on_launch := failing ''boom''\<rparr>) None
       (sample_event False launch_request) () () =
     (Inr (JStr ''error''),
      [Call OnLaunch launch_request (sample_session False),
       CallProcessingError (sample_event False launch_request) () (HandlerError ''boom'')],
      ())"
proof -
  have tb: "try_block (sample_handlers\<lparr>on_launch := failing ''boom''\<rparr>) None
       (sample_event False launch_request) ([], ()) =
     (Inl (HandlerError ''boom''), [Call OnLaunch launch_request (sample_session False)], ())"
    by (simp add: eval_defs)
  from failure_goes_to_error_hook[OF tb, where ctx="()"] tb
  show ?thesis by (simp add: sample_handlers_def)
qed

text \<open>
  Claim C1. When the configured application identifier is set (line 148 tests its truth
  value: not \<^verbatim>\<open>None\<close> and not the empty string) and the event's
  \<^verbatim>\<open>session.application.applicationId\<close> is a value different from it, the only
  call \<^verbatim>\<open>process_request\<close> makes is \<^verbatim>\<open>on_processing_error\<close>, with the original
  event, the original context and \<^verbatim>\<open>ValueError("Invalid Application ID")\<close>.
\<close>

theorem origin_mismatch_only_error_hook:
  assumes "app_id_set (Some a)"
    and "event_application_id event = Inr v"
    and "v \<noteq> JStr a"
  shows "process_request h (Some a) event ctx s =
           (fst (on_processing_error h event ctx (ValueError ''Invalid Application ID'') s),
            [CallProcessingError event ctx (ValueError ''Invalid Application ID'')],
            snd (on_processing_error h event ctx (ValueError ''Invalid Application ID'') s))"
  using assms
  by (simp add: process_request_def try_block_def origin_check_def split: prod.splits)


theorem origin_mismatch_only_error_hook_witness:
  "app_id_set (Some ''B'')
   \<and> event_application_id (sample_event True launch_request) = Inr (JStr ''A'')
   \<and> JStr ''A'' \<noteq> JStr ''B''
   \<and> process_request sample_handlers (Some ''B'') (sample_event True launch_request) () () =
       (Inr (JStr ''error''),
        [CallProcessingError (sample_event True launch_request) ()
           (ValueError ''Invalid Application ID'')],
        ())"
proof -
  have a: "app_id_set (Some ''B'')" by simp
  have b: "event_application_id (sample_event True launch_request) = Inr (JStr ''A'')"
    by (simp add: eval_defs)
  have c: "JStr ''A'' \<noteq> JStr ''B''" by simp
  from origin_mismatch_only_error_hook[OF a b c, where h=sample_handlers and ctx="()" and s="()"]
    a b c
  show ?thesis by (simp add: sample_handlers_def)
qed

lemma process_request_calls:
  assumes "try_block h app_id event ([], s) = (r, tr, s')"
  shows "\<exists>suffix. calls (process_request h app_id event ctx s) = tr @ suffix
           \<and> filter is_request_call suffix = []
           \<and> filter is_session_started_call suffix = []"
  using assms
  by (cases r) (auto simp: process_request_def calls_def split: prod.splits)

lemma intent_dispatch:
  assumes "origin_check app_id event = Inr ()"
    and "session_step h event ([], s) = (Inr u, tr1, s1)"
    and "event_request_type event = Inr (JStr ''IntentRequest'')"
    and "py_getitem event ''request'' = Inr req"
    and "py_getitem event ''session'' = Inr sess"
    and "get_intent_name req = Inr name"
  shows "try_block h app_id event ([], s) =
           (fst (handler_method h (spec_route name) req sess s1),
            tr1 @ [Call (spec_route name) req sess],
            snd (handler_method h (spec_route name) req sess s1))"
    and "filter is_request_call (calls (process_request h app_id event ctx s)) =
           [Call (spec_route name) req sess]"
proof -
  have "try_block h app_id event ([], s) = dispatch h event (tr1, s1)"
    using assms(1,2) by (simp add: try_block_def)
  also have "\<dots> = call_handler h (spec_route name) event (tr1, s1)"
    using assms(3,4,6) by (simp add: dispatch_def bindE_simps intent_branch_route)
  also have "\<dots> = (fst (handler_method h (spec_route name) req sess s1),
            tr1 @ [Call (spec_route name) req sess],
            snd (handler_method h (spec_route name) req sess s1))"
    using assms(4,5) by (rule call_handler_eq)
  finally show tb: "try_block h app_id event ([], s) =
           (fst (handler_method h (spec_route name) req sess s1),
            tr1 @ [Call (spec_route name) req sess],
            snd (handler_method h (spec_route name) req sess s1))" .
  from session_step_trace[OF assms(2)] have t1: "filter is_request_call tr1 = []" by auto
  from process_request_calls[OF tb, of ctx] t1 spec_route_request[of name]
  show "filter is_request_call (calls (process_request h app_id event ctx s)) =
           [Call (spec_route name) req sess]"
    by auto
qed

text \<open>
  Claim C2, amended. For an intent request that passes the origin check and whose
  session-started step completes without raising, with \<open>name\<close> the intent name
  resolved by \<^verbatim>\<open>_get_intent_name\<close>: the request-type handlers that
  \<^verbatim>\<open>process_request\<close> calls are exactly one, the handler that the specification's
  table \<open>spec_route\<close> gives for \<open>name\<close> (the dedicated handler for each of the seven
  reserved names, \<^verbatim>\<open>on_intent\<close> for every other name), called with
  \<^verbatim>\<open>event['request']\<close> and \<^verbatim>\<open>event['session']\<close>.
\<close>

theorem intent_routing:
  assumes "origin_check app_id event = Inr ()"
    and "session_step h event ([], s) = (Inr u, tr1, s1)"
    and "event_request_type event = Inr (JStr ''IntentRequest'')"
    and "py_getitem event ''request'' = Inr req"
    and "py_getitem event ''session'' = Inr sess"
    and "get_intent_name req = Inr name"
  shows "filter is_request_call (calls (process_request h app_id event ctx s)) =
           [Call (spec_route name) req sess]"
  using assms by (rule intent_dispatch(2))

lemma get_intent_name_absent:
  assumes "map_of r ''intent'' = None
           \<or> (\<exists>i. map_of r ''intent'' = Some (JDict i) \<and> map_of i ''name'' = None)"
  shows "get_intent_name (JDict r) = Inr JNull"
  using assms
  by (auto simp: get_intent_name_def get_intent_dict bindE_simps py_contains_dict
      simp del: py_contains.simps(1))

text \<open>
  Claim C9, amended. For an intent request that passes the origin check and whose
  session-started step completes without raising: when the request has no
  \<^verbatim>\<open>intent\<close> key, or its intent is a dictionary without a \<^verbatim>\<open>name\<close> key, the
  resolved intent name is \<^verbatim>\<open>None\<close>, the dispatch itself does not fail (the outcome
  of the \<^verbatim>\<open>try\<close> block is the outcome of \<^verbatim>\<open>on_intent\<close>), and the one
  request-type handler called is \<^verbatim>\<open>on_intent\<close>.
\<close>

theorem missing_intent_name_goes_to_on_intent:
  assumes "origin_check app_id event = Inr ()"
    and "session_step h event ([], s) = (Inr u, tr1, s1)"
    and "event_request_type event = Inr (JStr ''IntentRequest'')"
    and "py_getitem event ''request'' = Inr (JDict r)"
    and "py_getitem event ''session'' = Inr sess"
    and "map_of r ''intent'' = None
         \<or> (\<exists>i. map_of r ''intent'' = Some (JDict i) \<and> map_of i ''name'' = None)"
  shows "get_intent_name (JDict r) = Inr JNull
         \<and> try_block h app_id event ([], s) =
            (fst (on_intent h (JDict r) sess s1),
             tr1 @ [Call OnIntent (JDict r) sess],
             snd (on_intent h (JDict r) sess s1))
         \<and> filter is_request_call (calls (process_request h app_id event ctx s)) =
            [Call OnIntent (JDict r) sess]"
proof -
  have nm: "get_intent_name (JDict r) = Inr JNull"
    using assms(6) by (rule get_intent_name_absent)
  from intent_dispatch(1)[OF assms(1-5) nm] intent_dispatch(2)[OF assms(1-5) nm] nm
  show ?thesis by simp
qed

text \<open>
  Claim C7, amended. For an event that passes the origin check, whose session-started
  step completes without raising, and whose \<^verbatim>\<open>request.type\<close> is none of
  \<^verbatim>\<open>LaunchRequest\<close>, \<^verbatim>\<open>IntentRequest\<close> and \<^verbatim>\<open>SessionEndedRequest\<close>:
  \<^verbatim>\<open>process_request\<close> returns \<^verbatim>\<open>None\<close>, and calls neither a request-type handler
  nor the error hook (its trace is that of the session-started step).
\<close>

theorem unknown_type_returns_none:
  assumes "origin_check app_id event = Inr ()"
    and "session_step h event ([], s) = (Inr u, tr1, s1)"
    and "event_request_type event = Inr t"
    and "t \<noteq> JStr ''LaunchRequest''"
    and "t \<noteq> JStr ''IntentRequest''"
    and "t \<noteq> JStr ''SessionEndedRequest''"
  shows "process_request h app_id event ctx s = (Inr JNull, tr1, s1)
         \<and> filter is_request_call tr1 = []
         \<and> filter is_error_call tr1 = []"
proof -
  have "try_block h app_id event ([], s) = (Inr JNull, tr1, s1)"
    using assms by (simp add: try_block_def dispatch_def)
  then have "process_request h app_id event ctx s = (Inr JNull, tr1, s1)"
    by (simp add: process_request_def)
  with session_step_trace[OF assms(2)] show ?thesis by auto
qed

lemma handler_method_upd:
  "n \<noteq> OnSessionStarted \<Longrightarrow>
     handler_method (h\<lparr>on_session_started := f\<rparr>) n = handler_method h n"
  by (cases n) simp_all

lemma call_handler_upd:
  "n \<noteq> OnSessionStarted \<Longrightarrow>
     call_handler (h\<lparr>on_session_started := f\<rparr>) n event st = call_handler h n event st"
  by (cases st) (simp add: call_handler_def invoke_def handler_method_upd split: sum.splits)

lemma dispatch_upd:
  "dispatch (h\<lparr>on_session_started := f\<rparr>) event st = dispatch h event st"
  by (simp add: dispatch_def intent_branch_route call_handler_upd spec_route_request
      split: sum.splits)

lemma session_step_returning:
  "(\<exists>e st1. session_step h event st = (Inl e, st1)
       \<and> session_step (h\<lparr>on_session_started := returning v (on_session_started h)\<rparr>) event st
           = (Inl e, st1))
   \<or> (\<exists>w w' st1. session_step h event st = (Inr w, st1)
       \<and> session_step (h\<lparr>on_session_started := returning v (on_session_started h)\<rparr>) event st
           = (Inr w', st1))"
  by (cases st)
    (auto simp: session_step_def invoke_def returning_def split: sum.splits prod.splits)

lemma try_block_returning:
  "try_block (h\<lparr>on_session_started := returning v (on_session_started h)\<rparr>) app_id event st =
     try_block h app_id event st"
proof (cases "origin_check app_id event")
  case (Inl e)
  then show ?thesis by (simp add: try_block_def)
next
  case (Inr u)
  from session_step_returning[where h=h and v=v and event=event and st=st] Inr
  show ?thesis
    by (auto simp: try_block_def dispatch_upd)
qed

lemma process_request_returning:
  "process_request (h\<lparr>on_session_started := returning v (on_session_started h)\<rparr>)
       app_id event ctx s =
     process_request h app_id event ctx s"
  by (simp add: process_request_def try_block_returning split: prod.splits sum.splits)

text \<open>
  Claim C3, amended. For an event that passes the origin check, with
  \<^verbatim>\<open>session.new\<close> equal to true and a \<^verbatim>\<open>request.requestId\<close>: the first call of
  \<^verbatim>\<open>process_request\<close> is \<^verbatim>\<open>on_session_started\<close>, with a request object holding
  only \<^verbatim>\<open>requestId\<close> and with \<^verbatim>\<open>event['session']\<close>; it is not called again, so it
  comes before any request-type handler. Replacing the value the hook returns by any
  other value changes nothing in the result of \<^verbatim>\<open>process_request\<close>.
\<close>

theorem session_started_first_and_once:
  assumes "origin_check app_id event = Inr ()"
    and "event_session_new event = Inr (JBool True)"
    and "event_request_id event = Inr rid"
    and "py_getitem event ''session'' = Inr sess"
  shows "(\<exists>rest. calls (process_request h app_id event ctx s) =
                  Call OnSessionStarted (JDict [(''requestId'', rid)]) sess # rest
               \<and> filter is_session_started_call rest = []
               \<and> filter is_request_call
                    [Call OnSessionStarted (JDict [(''requestId'', rid)]) sess] = [])
         \<and> process_request (h\<lparr>on_session_started := returning v (on_session_started h)\<rparr>)
               app_id event ctx s =
             process_request h app_id event ctx s"
proof -
  let ?c = "Call OnSessionStarted (JDict [(''requestId'', rid)]) sess"
  obtain r1 s1 where hm: "on_session_started h (JDict [(''requestId'', rid)]) sess s = (r1, s1)"
    by (cases "on_session_started h (JDict [(''requestId'', rid)]) sess s")
  have ss: "session_step h event ([], s) = (r1, [?c], s1)"
    using assms(2-4) hm by (simp add: session_step_def invoke_def)
  obtain r tr s' where tb: "try_block h app_id event ([], s) = (r, tr, s')"
    by (metis prod_cases3)
  have "\<exists>rest. tr = ?c # rest \<and> filter is_session_started_call rest = []"
  proof (cases r1)
    case (Inl e)
    with assms(1) ss tb show ?thesis by (auto simp: try_block_def)
  next
    case (Inr w)
    with assms(1) ss tb have "dispatch h event ([?c], s1) = (r, tr, s')"
      by (simp add: try_block_def)
    from dispatch_trace[OF this] show ?thesis by auto
  qed
  then obtain rest where rest: "tr = ?c # rest" "filter is_session_started_call rest = []"
    by blast
  from process_request_calls[OF tb, of ctx] obtain suffix where
    "calls (process_request h app_id event ctx s) = tr @ suffix"
    "filter is_session_started_call suffix = []" by blast
  with rest have "calls (process_request h app_id event ctx s) = ?c # (rest @ suffix)
      \<and> filter is_session_started_call (rest @ suffix) = []" by simp
  then show ?thesis using process_request_returning[where h=h and v=v] by auto
qed

end
